theory Spec2Isabelle
  imports Complex_Main "HOL-Library.AList"
begin

section \<open>The market-making bot of \<^verbatim>\<open>im.py\<close>: data model\<close>

text \<open>
  Python floats are modelled as the reals they denote (exact arithmetic), with NaN kept
  as a value of its own wherever the program can meet it: as the sample standard
  deviation of fewer than two values, and as a price read from an order-book message
  (\<^verbatim>\<open>float("nan")\<close> parses), from where it reaches the mid-price histories.
  Infinities are not modelled.  Python ints are \<open>int\<close>, strings are \<open>string\<close>,
  exceptions are values of \<open>error\<close>.
\<close>

datatype error = KeyError | ValueError | ZeroDivisionError

datatype pyfloat = Num real | NaN

datatype side = BUY | SELL

text \<open>The dataclass fields of \<^verbatim>\<open>SmartMarketMakingBot\<close> that configure the quote engine.\<close>

record config =
  min_tick_width :: real
  base_volume :: int
  refresh_interval :: real
  inventory_limit :: int
  skew_coeff :: real
  vol_coeff :: real
  levels :: int
  jitter :: real
  aggressive_threshold :: int

definition default_config :: config where
  "default_config =
     \<lparr>min_tick_width = 2, base_volume = 10, refresh_interval = 3, inventory_limit = 100,
      skew_coeff = 3 / 100, vol_coeff = 200, levels = 2, jitter = 2 / 10,
      aggressive_threshold = 0\<rparr>"

text \<open>A call \<^verbatim>\<open>self.send_order(product, price, side, volume)\<close> made by the quote engine.\<close>

record request =
  rq_product :: string
  rq_price :: real
  rq_side :: side
  rq_volume :: int

section \<open>Python primitives\<close>

text \<open>
  Float comparison, negation and the mean of two floats: a comparison with NaN is false,
  arithmetic on NaN gives NaN.  \<open>the_num\<close> reads a float that is known to be a number.
\<close>

fun the_num :: "pyfloat \<Rightarrow> real" where
  "the_num (Num x) = x"
| "the_num NaN = 0"

fun py_lt :: "pyfloat \<Rightarrow> pyfloat \<Rightarrow> bool" where
  "py_lt (Num a) (Num b) = (a < b)"
| "py_lt _ _ = False"

fun py_le :: "pyfloat \<Rightarrow> pyfloat \<Rightarrow> bool" where
  "py_le (Num a) (Num b) = (a \<le> b)"
| "py_le _ _ = False"

fun py_neg :: "pyfloat \<Rightarrow> pyfloat" where
  "py_neg (Num a) = Num (- a)"
| "py_neg NaN = NaN"

fun py_mid :: "pyfloat \<Rightarrow> pyfloat \<Rightarrow> pyfloat" where
  "py_mid (Num a) (Num b) = Num ((1 / 2) * (a + b))"
| "py_mid _ _ = NaN"

text \<open>
  \<^verbatim>\<open>sorted(xs, key=k)\<close>: a stable sort that compares keys with \<^verbatim>\<open><\<close> only.  On
  keys that are all numbers every such sort returns the same list.  On keys with a NaN
  the result depends on which comparisons the sort makes; the insertion below returns the
  list as it is whenever no key is \<^verbatim>\<open><\<close> the key before it, as CPython does (the list
  is then one ascending run), and is not claimed to follow CPython on other lists with
  NaN keys.
\<close>

fun py_insort_key :: "('a \<Rightarrow> pyfloat) \<Rightarrow> 'a \<Rightarrow> 'a list \<Rightarrow> 'a list" where
  "py_insort_key k x [] = [x]"
| "py_insort_key k x (y # ys) =
     (if py_lt (k y) (k x) then y # py_insort_key k x ys else x # y # ys)"

definition py_sorted :: "('a \<Rightarrow> pyfloat) \<Rightarrow> 'a list \<Rightarrow> 'a list" where
  "py_sorted k xs = foldr (py_insort_key k) xs []"

text \<open>
  \<^verbatim>\<open>round(x)\<close> of a float: nearest integer, a tie going to the even neighbour.
\<close>

definition py_round :: "real \<Rightarrow> int" where
  "py_round x =
     (let f = \<lfloor>x\<rfloor>; d = x - of_int f
      in if d < 1 / 2 then f
         else if 1 / 2 < d then f + 1
         else if even f then f else f + 1)"

text \<open>\<^verbatim>\<open>int(x)\<close> of a float: truncation towards zero.\<close>

definition py_int :: "real \<Rightarrow> int" where
  "py_int x = (if 0 \<le> x then \<lfloor>x\<rfloor> else \<lceil>x\<rceil>)"

text \<open>
  \<^verbatim>\<open>xs[-window:]\<close>: a negative start counts from the end and is clamped at the
  front of the list; \<^verbatim>\<open>-0\<close> is \<open>0\<close>, so a window of 0 takes the whole list.
\<close>

definition py_slice_from :: "'a list \<Rightarrow> int \<Rightarrow> 'a list" where
  "py_slice_from xs i =
     (if i < 0 then drop (nat (int (length xs) + i)) xs else drop (nat i) xs)"

text \<open>\<^verbatim>\<open>d.get(k, default)\<close> on a dictionary held as a map.\<close>

definition dict_get :: "('k \<rightharpoonup> 'v) \<Rightarrow> 'k \<Rightarrow> 'v \<Rightarrow> 'v" where
  "dict_get d k dflt = (case d k of None \<Rightarrow> dflt | Some v \<Rightarrow> v)"

text \<open>
  \<^verbatim>\<open>pandas.Series(xs).std()\<close>: the sample standard deviation (divisor \<open>n - 1\<close>);
  NaN when there are fewer than two values.
\<close>

definition mean :: "real list \<Rightarrow> real" where
  "mean xs = sum_list xs / real (length xs)"

definition sample_std :: "real list \<Rightarrow> real" where
  "sample_std xs =
     sqrt ((\<Sum>x\<leftarrow>xs. (x - mean xs)\<^sup>2) / (real (length xs) - 1))"

definition pd_std :: "real list \<Rightarrow> pyfloat" where
  "pd_std xs = (if length xs < 2 then NaN else Num (sample_std xs))"

section \<open>Volatility estimate\<close>

text \<open>
  \<^verbatim>\<open>CMIBot._get_vol_est\<close>: the log returns of the adjacent pairs of the last
  \<open>window\<close> mid prices in which both prices are positive (\<^verbatim>\<open>arr[i] > 0 and
  arr[i+1] > 0\<close>, false for a NaN).
\<close>

definition log_returns :: "pyfloat list \<Rightarrow> real list" where
  "log_returns arr =
     [ln (the_num (arr ! (i + 1)) / the_num (arr ! i)). i \<leftarrow> [0..<length arr - 1],
        py_lt (Num 0) (arr ! i) \<and> py_lt (Num 0) (arr ! (i + 1))]"

definition get_vol_est :: "(string \<rightharpoonup> pyfloat list) \<Rightarrow> string \<Rightarrow> int \<Rightarrow> pyfloat" where
  "get_vol_est rm product window =
     (let arr = py_slice_from (dict_get rm product []) (- window)
      in if length arr < 2 then Num 0
         else let logs = log_returns arr
              in if logs = [] then Num 0 else pd_std logs)"

section \<open>Quote engine\<close>

text \<open>\<^verbatim>\<open>CMIBot.theos\<close>, from the two telemetry counts.\<close>

definition theos :: "int \<Rightarrow> int \<Rightarrow> (string \<rightharpoonup> real)" where
  "theos number_crossed_equator number_of_flights_in_air =
     [''EQUATOR'' \<mapsto> 100 + (1 / 2) * of_int number_crossed_equator,
      ''FLIGHTS'' \<mapsto> 200 + (2 / 10) * of_int number_of_flights_in_air]"

text \<open>\<^verbatim>\<open>_price_to_tick\<close>: \<^verbatim>\<open>round(price / tick) * tick\<close>; a zero tick raises.\<close>

definition price_to_tick :: "real \<Rightarrow> real \<Rightarrow> error + real" where
  "price_to_tick price tick =
     (if tick = 0 then Inl ZeroDivisionError
      else Inr (of_int (py_round (price / tick)) * tick))"

text \<open>\<^verbatim>\<open>_compute_half_spread_ticks\<close>; a NaN volatility makes the result NaN.\<close>

definition compute_half_spread_ticks ::
  "config \<Rightarrow> (string \<rightharpoonup> int) \<Rightarrow> (string \<rightharpoonup> pyfloat list) \<Rightarrow> string \<Rightarrow> pyfloat" where
  "compute_half_spread_ticks cfg inventory_map rm product =
     (case get_vol_est rm product 30 of
        NaN \<Rightarrow> NaN
      | Num vol \<Rightarrow>
          (let dynamic_ticks = max (min_tick_width cfg) 1 + vol * vol_coeff cfg;
               inv = \<bar>dict_get inventory_map product 0\<bar>;
               dynamic_ticks = dynamic_ticks + (2 / 100) * of_int inv
           in Num (dynamic_ticks / 2)))"

text \<open>
  The body of the \<^verbatim>\<open>for lvl in range(1, self.levels+1)\<close> loop: one (buy, sell) pair.
  \<open>r\<close> is the value \<^verbatim>\<open>random.random()\<close> returns for this level.
\<close>

definition level_prices ::
  "config \<Rightarrow> real \<Rightarrow> real \<Rightarrow> real \<Rightarrow> bool \<Rightarrow> int \<Rightarrow> real \<Rightarrow> error + (real \<times> real)" where
  "level_prices cfg half_spread_price center tick aggressive lvl r =
     (let offset = half_spread_price * (1 + (1 / 2) * (of_int lvl - 1));
          j = (r - 1 / 2) * jitter cfg * tick;
          buy_px = center - offset + j;
          sell_px = center + offset + j;
          buy_px = (if aggressive then buy_px + (1 / 2) * offset else buy_px);
          sell_px = (if aggressive then sell_px - (1 / 2) * offset else sell_px)
      in case price_to_tick buy_px tick of
           Inl e \<Rightarrow> Inl e
         | Inr b \<Rightarrow> (case price_to_tick sell_px tick of
                       Inl e \<Rightarrow> Inl e
                     | Inr s \<Rightarrow> Inr (b, s)))"

text \<open>The loop itself, over the level indices in order; the first exception ends it.\<close>

fun levels_loop ::
  "config \<Rightarrow> real \<Rightarrow> real \<Rightarrow> real \<Rightarrow> bool \<Rightarrow> (int \<Rightarrow> real) \<Rightarrow> int list
     \<Rightarrow> error + (real \<times> real) list" where
  "levels_loop cfg hsp center tick aggressive rnd [] = Inr []"
| "levels_loop cfg hsp center tick aggressive rnd (lvl # lvls) =
     (case level_prices cfg hsp center tick aggressive lvl (rnd lvl) of
        Inl e \<Rightarrow> Inl e
      | Inr p \<Rightarrow> (case levels_loop cfg hsp center tick aggressive rnd lvls of
                    Inl e \<Rightarrow> Inl e
                  | Inr ps \<Rightarrow> Inr (p # ps)))"

text \<open>
  The first half of one product's pass in \<^verbatim>\<open>_market_make_loop\<close>: the list
  \<^verbatim>\<open>levels\<close> and the quantity \<^verbatim>\<open>level_qty\<close>.  With a NaN half spread every
  price of the first level is NaN and \<^verbatim>\<open>round\<close> raises ValueError there; with no
  level to compute nothing is rounded.
\<close>

definition compute_levels ::
  "config \<Rightarrow> (string \<rightharpoonup> real) \<Rightarrow> (string \<rightharpoonup> real) \<Rightarrow> (string \<rightharpoonup> int)
     \<Rightarrow> (string \<rightharpoonup> pyfloat list) \<Rightarrow> (int \<Rightarrow> real) \<Rightarrow> string
     \<Rightarrow> error + ((real \<times> real) list \<times> int)" where
  "compute_levels cfg theo_map tick_sizes inventory_map rm rnd product =
     (let theo = dict_get theo_map product 100;
          tick = dict_get tick_sizes product 1;
          inv = dict_get inventory_map product 0;
          half_ticks = compute_half_spread_ticks cfg inventory_map rm product;
          skew = skew_coeff cfg * of_int inv * tick
      in case price_to_tick theo tick of
           Inl e \<Rightarrow> Inl e
         | Inr rounded \<Rightarrow>
             (let center = rounded - skew;
                  level_qty = (if inventory_limit cfg < \<bar>inv\<bar>
                               then max 1 (py_int (of_int (base_volume cfg) * (2 / 10)))
                               else base_volume cfg);
                  aggressive = (of_int (inventory_limit cfg) * (8 / 10) < (of_int \<bar>inv\<bar> :: real))
              in case half_ticks of
                   NaN \<Rightarrow> (if [1..levels cfg] = [] then Inr ([], level_qty) else Inl ValueError)
                 | Num h \<Rightarrow>
                     (case levels_loop cfg (h * tick) center tick aggressive rnd [1..levels cfg] of
                        Inl e \<Rightarrow> Inl e
                      | Inr lv \<Rightarrow> Inr (lv, level_qty))))"

text \<open>
  The second half, \<^verbatim>\<open>for (buy_px, sell_px) in levels\<close>: the calls of
  \<^verbatim>\<open>send_order\<close>, in order.
\<close>

fun submit_orders :: "string \<Rightarrow> int \<Rightarrow> (real \<times> real) list \<Rightarrow> request list" where
  "submit_orders product level_qty [] = []"
| "submit_orders product level_qty ((buy_px, sell_px) # lv) =
     (if buy_px < sell_px
      then \<lparr>rq_product = product, rq_price = buy_px, rq_side = BUY, rq_volume = level_qty\<rparr>
         # \<lparr>rq_product = product, rq_price = sell_px, rq_side = SELL, rq_volume = level_qty\<rparr>
         # submit_orders product level_qty lv
      else submit_orders product level_qty lv)"

definition quote_product ::
  "config \<Rightarrow> (string \<rightharpoonup> real) \<Rightarrow> (string \<rightharpoonup> real) \<Rightarrow> (string \<rightharpoonup> int)
     \<Rightarrow> (string \<rightharpoonup> pyfloat list) \<Rightarrow> (int \<Rightarrow> real) \<Rightarrow> string \<Rightarrow> error + request list" where
  "quote_product cfg theo_map tick_sizes inventory_map rm rnd product =
     (case compute_levels cfg theo_map tick_sizes inventory_map rm rnd product of
        Inl e \<Rightarrow> Inl e
      | Inr (lv, level_qty) \<Rightarrow> Inr (submit_orders product level_qty lv))"

section \<open>Ledger and simulated gateway\<close>

text \<open>
  An order dictionary as \<^verbatim>\<open>send_order\<close> builds it in simulation mode:
  \<^verbatim>\<open>{"id": oid, "product": .., "side": .., "price": .., "volume": .., "status": "OPEN"}\<close>.
\<close>

record order =
  oid :: string
  o_product :: string
  o_side :: side
  o_price :: real
  o_volume :: int
  o_status :: string

text \<open>
  The runtime state of \<^verbatim>\<open>CMIBot\<close> that the simulated gateway and the mid-price
  feed touch.  \<^verbatim>\<open>open_orders_local\<close> is iterated by the program, so it keeps the
  dictionary's insertion order as an association list with distinct keys; the other
  dictionaries are only looked up.  Every mutation of the source runs under the one
  lock, so an operation is a function from state to state.
\<close>

record bot_state =
  products :: "string list"
  inventory :: "string \<rightharpoonup> int"
  open_orders_local :: "(string \<times> order list) list"
  recent_mid :: "string \<rightharpoonup> pyfloat list"

text \<open>\<^verbatim>\<open>d.setdefault(k, v)\<close> on a map and on an association list.\<close>

definition map_setdefault :: "('k \<rightharpoonup> 'v) \<Rightarrow> 'k \<Rightarrow> 'v \<Rightarrow> ('k \<rightharpoonup> 'v)" where
  "map_setdefault d k v = (case d k of None \<Rightarrow> d(k \<mapsto> v) | Some _ \<Rightarrow> d)"

definition alist_setdefault :: "('k \<times> 'v) list \<Rightarrow> 'k \<Rightarrow> 'v \<Rightarrow> ('k \<times> 'v) list" where
  "alist_setdefault d k v = (case map_of d k of None \<Rightarrow> d @ [(k, v)] | Some _ \<Rightarrow> d)"

text \<open>The three dictionaries after \<^verbatim>\<open>__post_init__\<close> has run over the products.\<close>

definition init_state :: "string list \<Rightarrow> bot_state" where
  "init_state ps =
     \<lparr>products = ps,
      inventory = fold (\<lambda>p d. map_setdefault d p 0) ps Map.empty,
      open_orders_local = fold (\<lambda>p d. alist_setdefault d p []) ps [],
      recent_mid = fold (\<lambda>p d. map_setdefault d p []) ps Map.empty\<rparr>"

text \<open>Decimal rendering of an int, as an f-string prints it.\<close>

definition digit_char :: "nat \<Rightarrow> char" where
  "digit_char d =
     (if d = 0 then CHR ''0'' else if d = 1 then CHR ''1'' else if d = 2 then CHR ''2''
      else if d = 3 then CHR ''3'' else if d = 4 then CHR ''4'' else if d = 5 then CHR ''5''
      else if d = 6 then CHR ''6'' else if d = 7 then CHR ''7'' else if d = 8 then CHR ''8''
      else CHR ''9'')"

fun str_nat :: "nat \<Rightarrow> string" where
  "str_nat n = (if n < 10 then [digit_char n] else str_nat (n div 10) @ [digit_char (n mod 10)])"

declare str_nat.simps [simp del]

definition str_int :: "int \<Rightarrow> string" where
  "str_int i = (if i < 0 then CHR ''-'' # str_nat (nat (- i)) else str_nat (nat i))"

text \<open>
  The identifier \<^verbatim>\<open>f"sim-{int(time.time()*1000)}-{random.randint(0,999)}"\<close>, from the
  clock reading in milliseconds and the random draw.
\<close>

definition gen_oid :: "int \<Rightarrow> int \<Rightarrow> string" where
  "gen_oid now_ms r = ''sim-'' @ str_int now_ms @ ''-'' @ str_int r"

text \<open>\<^verbatim>\<open>_get_sim_mid\<close>: the newest mid price of the product, if any.\<close>

definition get_sim_mid :: "bot_state \<Rightarrow> string \<Rightarrow> pyfloat option" where
  "get_sim_mid s product =
     (let arr = dict_get (recent_mid s) product [] in if arr = [] then None else Some (last arr))"

text \<open>\<^verbatim>\<open>_simulate_fill\<close>: drop every order with the filled order's id, move the inventory.\<close>

definition simulate_fill :: "bot_state \<Rightarrow> string \<Rightarrow> order \<Rightarrow> error + bot_state" where
  "simulate_fill s product ord =
     (case map_of (open_orders_local s) product of
        None \<Rightarrow> Inl KeyError
      | Some lst \<Rightarrow>
          (let s1 = s\<lparr>open_orders_local :=
                       AList.update product (filter (\<lambda>o'. oid o' \<noteq> oid ord) lst)
                         (open_orders_local s)\<rparr>;
               vol = o_volume ord
           in if o_side ord = BUY
              then Inr (s1\<lparr>inventory := (inventory s1)(product \<mapsto> dict_get (inventory s1) product 0 + vol)\<rparr>)
              else Inr (s1\<lparr>inventory := (inventory s1)(product \<mapsto> dict_get (inventory s1) product 0 - vol)\<rparr>)))"

text \<open>
  \<^verbatim>\<open>send_order\<close>, the \<^verbatim>\<open>simulate_mode\<close> branch.  \<open>now_ms\<close> and \<open>r\<close> are the clock
  reading and the random draw that make the id; \<open>new_order\<close> is the dictionary
  \<^verbatim>\<open>{"id": oid, **payload, "status": "OPEN"}\<close>.  The test is
  \<^verbatim>\<open>price >= mid\<close> for a BUY and \<^verbatim>\<open>price <= mid\<close> for a SELL, both false when the
  mid is NaN.
\<close>

definition new_order :: "string \<Rightarrow> real \<Rightarrow> side \<Rightarrow> int \<Rightarrow> int \<Rightarrow> int \<Rightarrow> order" where
  "new_order product price sd volume now_ms r =
     \<lparr>oid = gen_oid now_ms r, o_product = product, o_side = sd, o_price = price,
      o_volume = volume, o_status = ''OPEN''\<rparr>"

definition send_order ::
  "bot_state \<Rightarrow> string \<Rightarrow> real \<Rightarrow> side \<Rightarrow> int \<Rightarrow> int \<Rightarrow> int \<Rightarrow> error + (bot_state \<times> order)" where
  "send_order s product price sd volume now_ms r =
     (let ord = new_order product price sd volume now_ms r
      in case map_of (open_orders_local s) product of
           None \<Rightarrow> Inl KeyError
         | Some lst \<Rightarrow>
             (let s1 = s\<lparr>open_orders_local :=
                          AList.update product (lst @ [ord]) (open_orders_local s)\<rparr>
              in case get_sim_mid s1 product of
                   None \<Rightarrow> Inr (s1, ord)
                 | Some mid \<Rightarrow>
                     if (sd = BUY \<and> py_le mid (Num price)) \<or> (sd = SELL \<and> py_le (Num price) mid)
                     then (case simulate_fill s1 product ord of
                             Inl e \<Rightarrow> Inl e
                           | Inr s2 \<Rightarrow> Inr (s2, ord))
                     else Inr (s1, ord)))"

text \<open>
  \<^verbatim>\<open>cancel_order\<close>, the \<^verbatim>\<open>simulate_mode\<close> branch: walks the dictionary's items in
  order, filters each list, and stops at the first list that got shorter.
\<close>

fun cancel_scan :: "(string \<times> order list) list \<Rightarrow> string \<Rightarrow> (string \<times> order list) list \<times> bool" where
  "cancel_scan [] order_id = ([], False)"
| "cancel_scan ((p, lst) # rest) order_id =
     (let lst' = filter (\<lambda>o'. oid o' \<noteq> order_id) lst
      in if length lst' < length lst then ((p, lst') # rest, True)
         else (case cancel_scan rest order_id of (rest', b) \<Rightarrow> ((p, lst') # rest', b)))"

definition cancel_order :: "bot_state \<Rightarrow> string \<Rightarrow> bot_state \<times> bool" where
  "cancel_order s order_id =
     (case cancel_scan (open_orders_local s) order_id of
        (d, b) \<Rightarrow> (s\<lparr>open_orders_local := d\<rparr>, b))"

text \<open>
  \<^verbatim>\<open>cancel_all_orders\<close>, the \<^verbatim>\<open>simulate_mode\<close> branch:
  \<^verbatim>\<open>self.open_orders_local = {k:[] for k in self.products}\<close>.
\<close>

definition cancel_all_orders :: "bot_state \<Rightarrow> bot_state" where
  "cancel_all_orders s =
     s\<lparr>open_orders_local := fold (\<lambda>k d. AList.update k [] d) (products s) []\<rparr>"

section \<open>Mid-price history\<close>

text \<open>
  The two statements both feeds run under the lock:
  \<^verbatim>\<open>recent_mid[p].append(mid); if len(recent_mid[p]) > 200: recent_mid[p].pop(0)\<close>.
\<close>

definition push_mid :: "pyfloat list \<Rightarrow> pyfloat \<Rightarrow> pyfloat list" where
  "push_mid xs mid = (let ys = xs @ [mid] in if 200 < length ys then tl ys else ys)"

definition insert_mid ::
  "(string \<rightharpoonup> pyfloat list) \<Rightarrow> string \<Rightarrow> pyfloat \<Rightarrow> error + (string \<rightharpoonup> pyfloat list)" where
  "insert_mid rm p mid =
     (case rm p of None \<Rightarrow> Inl KeyError | Some xs \<Rightarrow> Inr (rm(p \<mapsto> push_mid xs mid)))"

text \<open>
  One pass of the inner loop of \<^verbatim>\<open>_simulate_market_updates\<close> for product \<open>p\<close>;
  \<open>g\<close> is the value of \<^verbatim>\<open>random.normalvariate(0, 0.002)\<close>.
\<close>

definition simulate_market_update ::
  "bot_state \<Rightarrow> (string \<rightharpoonup> real) \<Rightarrow> string \<Rightarrow> real \<Rightarrow> error + bot_state" where
  "simulate_market_update s theo_map p g =
     (let theo = dict_get theo_map p 100;
          mid = theo * (1 + g)
      in case insert_mid (recent_mid s) p (Num mid) of
           Inl e \<Rightarrow> Inl e
         | Inr rm \<Rightarrow> Inr (s\<lparr>recent_mid := rm\<rparr>))"

section \<open>Order-book normalizer\<close>

text \<open>
  A raw message: the JSON object with the optional keys the handlers read.  A side is
  the list of the items of its price-to-volumes object, a volumes object has optional
  numeric fields.  \<open>parse\<close> stands for Python's \<^verbatim>\<open>float\<close> on a string: \<open>None\<close>
  where it raises ValueError, NaN for a string such as \<^verbatim>\<open>"nan"\<close>.
\<close>

record raw_level =
  rl_price :: "pyfloat option"
  rl_marketVolume :: "int option"
  rl_volume :: "int option"
  rl_userVolume :: "int option"

record raw_orderbook =
  r_productsymbol :: "string option"
  r_product :: "string option"
  r_buyOrders :: "(string \<times> raw_level) list option"
  r_sellOrders :: "(string \<times> raw_level) list option"

record book_level =
  lv_price :: pyfloat
  lv_volume :: int
  lv_own_volume :: int

record orderbook =
  ob_product :: string
  ob_buy_orders :: "book_level list"
  ob_sell_orders :: "book_level list"

text \<open>The inner function \<^verbatim>\<open>transform\<close> of \<^verbatim>\<open>_on_orderbook_wrapper\<close> in \<^verbatim>\<open>im.py\<close>.\<close>

definition transform ::
  "(string \<Rightarrow> pyfloat option) \<Rightarrow> (string \<times> raw_level) list \<Rightarrow> book_level list" where
  "transform parse side_items =
     map (\<lambda>(price_s, vi).
            \<lparr>lv_price = (case parse price_s of
                           Some x \<Rightarrow> x
                         | None \<Rightarrow> (case rl_price vi of None \<Rightarrow> Num 0 | Some x \<Rightarrow> x)),
             lv_volume = (case rl_marketVolume vi of
                            Some v \<Rightarrow> v
                          | None \<Rightarrow> (case rl_volume vi of None \<Rightarrow> 0 | Some v \<Rightarrow> v)),
             lv_own_volume = (case rl_userVolume vi of None \<Rightarrow> 0 | Some v \<Rightarrow> v)\<rparr>)
         side_items"

text \<open>
  \<^verbatim>\<open>_on_orderbook_wrapper\<close> of \<^verbatim>\<open>im.py\<close>: \<open>normalized_book\<close> is the dictionary
  \<^verbatim>\<open>ob\<close> it builds (product and sorted ladders), the wrapper then derives the mid
  price \<^verbatim>\<open>0.5*(best bid + best ask)\<close> and returns the book and the mid-price
  histories after it.  An exception is caught by the handler and nothing is delivered.
\<close>

definition normalized_book :: "(string \<Rightarrow> pyfloat option) \<Rightarrow> raw_orderbook \<Rightarrow> orderbook" where
  "normalized_book parse raw =
     (let prod = (case r_productsymbol raw of
                    Some p \<Rightarrow> p
                  | None \<Rightarrow> (case r_product raw of Some p \<Rightarrow> p | None \<Rightarrow> ''UNKNOWN''));
          buys = py_sorted (\<lambda>d. py_neg (lv_price d))
                   (transform parse (case r_buyOrders raw of None \<Rightarrow> [] | Some m \<Rightarrow> m));
          sells = py_sorted (\<lambda>d. lv_price d)
                    (transform parse (case r_sellOrders raw of None \<Rightarrow> [] | Some m \<Rightarrow> m))
      in \<lparr>ob_product = prod, ob_buy_orders = buys, ob_sell_orders = sells\<rparr>)"

definition on_orderbook_wrapper ::
  "(string \<Rightarrow> pyfloat option) \<Rightarrow> (string \<rightharpoonup> pyfloat list) \<Rightarrow> raw_orderbook
     \<Rightarrow> error + (orderbook \<times> (string \<rightharpoonup> pyfloat list))" where
  "on_orderbook_wrapper parse rm raw =
     (let ob = normalized_book parse raw
      in case (ob_buy_orders ob, ob_sell_orders ob) of
           (b # _, a # _) \<Rightarrow>
             (case insert_mid rm (ob_product ob) (py_mid (lv_price b) (lv_price a)) of
                Inl e \<Rightarrow> Inl e
              | Inr rm' \<Rightarrow> Inr (ob, rm'))
         | _ \<Rightarrow> Inr (ob, rm))"



section \<open>Interleavings of the simulation\<close>

text \<open>
  The operations the threads perform on the shared state, each atomic under the lock:
  an order sent, a cancel by id, a cancel-all, one synthetic mid price, one order-book
  message.  An operation that raises leaves the state as it was: every raise of these
  operations comes before their first mutation.
\<close>

datatype op =
    SendOrder string real side int int int
  | CancelOrder string
  | CancelAll
  | SimMid "string \<rightharpoonup> real" string real
  | BookUpdate raw_orderbook

fun step :: "(string \<Rightarrow> pyfloat option) \<Rightarrow> bot_state \<Rightarrow> op \<Rightarrow> bot_state" where
  "step parse s (SendOrder product price sd volume now_ms r) =
     (case send_order s product price sd volume now_ms r of Inl e \<Rightarrow> s | Inr (s', ord) \<Rightarrow> s')"
| "step parse s (CancelOrder order_id) = fst (cancel_order s order_id)"
| "step parse s CancelAll = cancel_all_orders s"
| "step parse s (SimMid theo_map p g) =
     (case simulate_market_update s theo_map p g of Inl e \<Rightarrow> s | Inr s' \<Rightarrow> s')"
| "step parse s (BookUpdate raw) =
     (case on_orderbook_wrapper parse (recent_mid s) raw of
        Inl e \<Rightarrow> s
      | Inr (ob, rm) \<Rightarrow> s\<lparr>recent_mid := rm\<rparr>)"

definition run :: "(string \<Rightarrow> pyfloat option) \<Rightarrow> bot_state \<Rightarrow> op list \<Rightarrow> bot_state" where
  "run parse s ops = foldl (step parse) s ops"

fun is_mid_update :: "op \<Rightarrow> bool" where
  "is_mid_update (SimMid theo_map p g) = True"
| "is_mid_update (BookUpdate raw) = True"
| "is_mid_update _ = False"

fun is_send :: "op \<Rightarrow> bool" where
  "is_send (SendOrder product price sd volume now_ms r) = True"
| "is_send _ = False"

text \<open>The capacity invariant of the mid-price histories.\<close>

definition history_bounded :: "(string \<rightharpoonup> pyfloat list) \<Rightarrow> bool" where
  "history_bounded rm = (\<forall>p xs. rm p = Some xs \<longrightarrow> length xs \<le> 200)"

section \<open>Scenarios\<close>

text \<open>
  The configuration of the end-to-end scenario: \<^verbatim>\<open>min_tick_width=2, base_volume=10,
  levels=1, jitter=0\<close>, every other field at its default.
\<close>

definition scenario_config :: config where
  "scenario_config = default_config\<lparr>min_tick_width := 2, base_volume := 10, levels := 1, jitter := 0\<rparr>"

text \<open>
  A configuration under which the first levels lock: a spread of one tick, and an
  inventory limit of 0, so that any inventory makes the quotes aggressive.
\<close>

definition gated_config :: config where
  "gated_config = default_config\<lparr>min_tick_width := 1, inventory_limit := 0, levels := 3, jitter := 0\<rparr>"






text \<open>
  A simulation state: the two default products, no order, no inventory, and a last
  simulated mid price of 100 for EQUATOR.
\<close>

definition mid100_state :: bot_state where
  "mid100_state = (init_state [''EQUATOR'', ''FLIGHTS''])\<lparr>recent_mid :=
     [''EQUATOR'' \<mapsto> [Num 100], ''FLIGHTS'' \<mapsto> []]\<rparr>"

text \<open>A reading of the price keys used in the order-book examples.\<close>

definition demo_parse :: "string \<Rightarrow> pyfloat option" where
  "demo_parse k =
     (if k = ''99'' then Some (Num 99) else if k = ''100'' then Some (Num 100)
      else if k = ''101'' then Some (Num 101) else if k = ''102'' then Some (Num 102)
      else if k = ''1'' then Some (Num 1) else if k = ''2'' then Some (Num 2)
      else if k = ''3'' then Some (Num 3) else if k = ''nan'' then Some NaN else None)"

definition demo_level :: raw_level where
  "demo_level = \<lparr>rl_price = None, rl_marketVolume = Some 5, rl_volume = None, rl_userVolume = Some 0\<rparr>"

definition demo_book :: raw_orderbook where
  "demo_book =
     \<lparr>r_productsymbol = Some ''EQUATOR'', r_product = None,
      r_buyOrders = Some [(''99'', demo_level), (''100'', demo_level)],
      r_sellOrders = Some [(''102'', demo_level), (''101'', demo_level)]\<rparr>"


section \<open>Properties of the quote engine\<close>

lemma py_round_of_int [simp]: "py_round (of_int n) = n"
  by (simp add: py_round_def)

lemma py_round_numeral [simp]: "py_round (numeral n) = numeral n"
  using py_round_of_int [of "numeral n"] by simp

lemma scenario_half_spread:
  "compute_half_spread_ticks scenario_config [''EQUATOR'' \<mapsto> 0] [''EQUATOR'' \<mapsto> []] ''EQUATOR'' = Num 1"
  by (simp add: compute_half_spread_ticks_def get_vol_est_def py_slice_from_def dict_get_def
      scenario_config_def default_config_def)

lemma scenario_quotes:
  "quote_product scenario_config (theos 0 0) [''EQUATOR'' \<mapsto> 1] [''EQUATOR'' \<mapsto> 0]
     [''EQUATOR'' \<mapsto> []] rnd ''EQUATOR''
   = Inr [\<lparr>rq_product = ''EQUATOR'', rq_price = 99, rq_side = BUY, rq_volume = 10\<rparr>,
          \<lparr>rq_product = ''EQUATOR'', rq_price = 101, rq_side = SELL, rq_volume = 10\<rparr>]"
  by (simp add: quote_product_def compute_levels_def compute_half_spread_ticks_def
      get_vol_est_def py_slice_from_def dict_get_def scenario_config_def default_config_def
      theos_def price_to_tick_def level_prices_def upto.simps)

text \<open>
  C1, as stated: with \<^verbatim>\<open>minTickWidth=2, baseVolume=10, levels=1, jitter=0\<close>, theo 100
  (no flight has crossed the equator), tick 1, inventory 0 and volatility 0 (no mid
  price seen yet), one cycle computes a half spread of 2 ticks and submits buy 98 and
  sell 102.  The code does neither: the half spread is not 2 and the orders sent are not
  98/102.
\<close>

theorem end_to_end_scenario_counterexample:
  "compute_half_spread_ticks scenario_config [''EQUATOR'' \<mapsto> 0] [''EQUATOR'' \<mapsto> []] ''EQUATOR'' \<noteq> Num 2
   \<and> quote_product scenario_config (theos 0 0) [''EQUATOR'' \<mapsto> 1] [''EQUATOR'' \<mapsto> 0]
        [''EQUATOR'' \<mapsto> []] (\<lambda>lvl. 0) ''EQUATOR''
      \<noteq> Inr [\<lparr>rq_product = ''EQUATOR'', rq_price = 98, rq_side = BUY, rq_volume = 10\<rparr>,
              \<lparr>rq_product = ''EQUATOR'', rq_price = 102, rq_side = SELL, rq_volume = 10\<rparr>]"
  by (simp add: scenario_half_spread scenario_quotes)

text \<open>
  C1, amended: in that scenario \<^verbatim>\<open>min_tick_width\<close> is the whole spread in ticks, so
  the half spread is 1 tick (price 1) around the center 100, and whatever the random
  draw the cycle submits a buy at 99 and a sell at 101, 10 units each.
\<close>

theorem end_to_end_scenario:
  "compute_half_spread_ticks scenario_config [''EQUATOR'' \<mapsto> 0] [''EQUATOR'' \<mapsto> []] ''EQUATOR'' = Num 1
   \<and> price_to_tick (dict_get (theos 0 0) ''EQUATOR'' 100) 1 = Inr 100
   \<and> quote_product scenario_config (theos 0 0) [''EQUATOR'' \<mapsto> 1] [''EQUATOR'' \<mapsto> 0]
        [''EQUATOR'' \<mapsto> []] rnd ''EQUATOR''
      = Inr [\<lparr>rq_product = ''EQUATOR'', rq_price = 99, rq_side = BUY, rq_volume = 10\<rparr>,
             \<lparr>rq_product = ''EQUATOR'', rq_price = 101, rq_side = SELL, rq_volume = 10\<rparr>]"
proof (intro conjI)
  show "compute_half_spread_ticks scenario_config [''EQUATOR'' \<mapsto> 0] [''EQUATOR'' \<mapsto> []] ''EQUATOR'' = Num 1"
    by (rule scenario_half_spread)
  show "price_to_tick (dict_get (theos 0 0) ''EQUATOR'' 100) 1 = Inr 100"
    by (simp add: price_to_tick_def dict_get_def theos_def)
  show "quote_product scenario_config (theos 0 0) [''EQUATOR'' \<mapsto> 1] [''EQUATOR'' \<mapsto> 0]
        [''EQUATOR'' \<mapsto> []] rnd ''EQUATOR''
      = Inr [\<lparr>rq_product = ''EQUATOR'', rq_price = 99, rq_side = BUY, rq_volume = 10\<rparr>,
             \<lparr>rq_product = ''EQUATOR'', rq_price = 101, rq_side = SELL, rq_volume = 10\<rparr>]"
    by (rule scenario_quotes)
qed

subsection \<open>The buy-below-sell gate\<close>

lemma submit_orders_concat:
  "submit_orders p q lv =
     concat (map (\<lambda>(b, s). if b < s
        then [\<lparr>rq_product = p, rq_price = b, rq_side = BUY, rq_volume = q\<rparr>,
              \<lparr>rq_product = p, rq_price = s, rq_side = SELL, rq_volume = q\<rparr>] else []) lv)"
  by (induction p q lv rule: submit_orders.induct) auto

lemma submit_orders_length:
  "length (submit_orders p q lv) = 2 * length (filter (\<lambda>(b, s). b < s) lv)"
  by (induction p q lv rule: submit_orders.induct) auto

lemma submit_orders_sound:
  "r \<in> set (submit_orders p q lv) \<Longrightarrow>
     \<exists>(b, s) \<in> set lv. b < s \<and>
       (r = \<lparr>rq_product = p, rq_price = b, rq_side = BUY, rq_volume = q\<rparr>
        \<or> r = \<lparr>rq_product = p, rq_price = s, rq_side = SELL, rq_volume = q\<rparr>)"
  by (induction p q lv rule: submit_orders.induct) (auto split: if_splits)

lemma gated_levels:
  "compute_levels gated_config (theos 0 0) [''EQUATOR'' \<mapsto> 1] [''EQUATOR'' \<mapsto> 1]
     [''EQUATOR'' \<mapsto> []] (\<lambda>lvl. 0) ''EQUATOR'' = Inr ([(100, 100), (100, 100), (99, 100)], 2)"
  by (simp add: compute_levels_def compute_half_spread_ticks_def
      get_vol_est_def py_slice_from_def dict_get_def gated_config_def default_config_def
      theos_def price_to_tick_def level_prices_def upto.simps py_round_def py_int_def)

text \<open>
  C3: in a cycle that computes the levels \<open>lv\<close> for a product, the orders sent are, level
  by level and in order, the buy and the sell of the level when its buy price is
  strictly below its sell price, and nothing for a level whose prices are crossed or
  locked.  So every order sent belongs to a level with buy below sell, and the number of
  orders is twice the number of such levels.
\<close>

theorem quotes_gated:
  assumes "compute_levels cfg tm ts im rm rnd p = Inr (lv, q)"
  shows "quote_product cfg tm ts im rm rnd p = Inr (submit_orders p q lv)
    \<and> submit_orders p q lv =
        concat (map (\<lambda>(b, s). if b < s
          then [\<lparr>rq_product = p, rq_price = b, rq_side = BUY, rq_volume = q\<rparr>,
                \<lparr>rq_product = p, rq_price = s, rq_side = SELL, rq_volume = q\<rparr>] else []) lv)
    \<and> (\<forall>r \<in> set (submit_orders p q lv). \<exists>(b, s) \<in> set lv. b < s \<and>
          (r = \<lparr>rq_product = p, rq_price = b, rq_side = BUY, rq_volume = q\<rparr>
           \<or> r = \<lparr>rq_product = p, rq_price = s, rq_side = SELL, rq_volume = q\<rparr>))
    \<and> length (submit_orders p q lv) = 2 * length (filter (\<lambda>(b, s). b < s) lv)"
proof (intro conjI)
  show "quote_product cfg tm ts im rm rnd p = Inr (submit_orders p q lv)"
    using assms by (simp add: quote_product_def)
  show "submit_orders p q lv =
        concat (map (\<lambda>(b, s). if b < s
          then [\<lparr>rq_product = p, rq_price = b, rq_side = BUY, rq_volume = q\<rparr>,
                \<lparr>rq_product = p, rq_price = s, rq_side = SELL, rq_volume = q\<rparr>] else []) lv)"
    by (rule submit_orders_concat)
  show "\<forall>r \<in> set (submit_orders p q lv). \<exists>(b, s) \<in> set lv. b < s \<and>
          (r = \<lparr>rq_product = p, rq_price = b, rq_side = BUY, rq_volume = q\<rparr>
           \<or> r = \<lparr>rq_product = p, rq_price = s, rq_side = SELL, rq_volume = q\<rparr>)"
    using submit_orders_sound by blast
  show "length (submit_orders p q lv) = 2 * length (filter (\<lambda>(b, s). b < s) lv)"
    by (rule submit_orders_length)
qed

text \<open>
  With one unit of inventory over a limit of 0 the first two levels lock at 100/100 and
  are skipped; only the third, 99/100, is sent.
\<close>

theorem quotes_gated_witness:
  "compute_levels gated_config (theos 0 0) [''EQUATOR'' \<mapsto> 1] [''EQUATOR'' \<mapsto> 1]
     [''EQUATOR'' \<mapsto> []] (\<lambda>lvl. 0) ''EQUATOR'' = Inr ([(100, 100), (100, 100), (99, 100)], 2)
   \<and> quote_product gated_config (theos 0 0) [''EQUATOR'' \<mapsto> 1] [''EQUATOR'' \<mapsto> 1]
     [''EQUATOR'' \<mapsto> []] (\<lambda>lvl. 0) ''EQUATOR''
     = Inr [\<lparr>rq_product = ''EQUATOR'', rq_price = 99, rq_side = BUY, rq_volume = 2\<rparr>,
            \<lparr>rq_product = ''EQUATOR'', rq_price = 100, rq_side = SELL, rq_volume = 2\<rparr>]"
  using quotes_gated [OF gated_levels] gated_levels by simp

subsection \<open>A product without a fair value\<close>

lemma compute_levels_default_theo:
  "tm p = None \<Longrightarrow>
     compute_levels cfg tm ts im rm rnd p = compute_levels cfg (tm(p \<mapsto> 100)) ts im rm rnd p"
  by (simp add: compute_levels_def dict_get_def)

lemma unknown_product_quotes:
  "quote_product scenario_config (theos 0 0) Map.empty Map.empty Map.empty (\<lambda>lvl. 0) ''GOLD''
   = Inr [\<lparr>rq_product = ''GOLD'', rq_price = 99, rq_side = BUY, rq_volume = 10\<rparr>,
          \<lparr>rq_product = ''GOLD'', rq_price = 101, rq_side = SELL, rq_volume = 10\<rparr>]"
  by (simp add: quote_product_def compute_levels_def compute_half_spread_ticks_def
      get_vol_est_def py_slice_from_def dict_get_def scenario_config_def default_config_def
      theos_def price_to_tick_def level_prices_def upto.simps)

text \<open>
  C6, as stated: a product for which the fair-value model has no value is skipped and no
  order is sent at a default price.  The model has values for EQUATOR and FLIGHTS only;
  for a product GOLD the cycle still sends a buy at 99 and a sell at 101, around the
  default 100.
\<close>

theorem missing_theo_counterexample:
  "theos 0 0 ''GOLD'' = None
   \<and> quote_product scenario_config (theos 0 0) Map.empty Map.empty Map.empty (\<lambda>lvl. 0) ''GOLD''
     = Inr [\<lparr>rq_product = ''GOLD'', rq_price = 99, rq_side = BUY, rq_volume = 10\<rparr>,
            \<lparr>rq_product = ''GOLD'', rq_price = 101, rq_side = SELL, rq_volume = 10\<rparr>]"
proof (intro conjI)
  show "theos 0 0 ''GOLD'' = None"
    by (simp add: theos_def)
  show "quote_product scenario_config (theos 0 0) Map.empty Map.empty Map.empty (\<lambda>lvl. 0) ''GOLD''
     = Inr [\<lparr>rq_product = ''GOLD'', rq_price = 99, rq_side = BUY, rq_volume = 10\<rparr>,
            \<lparr>rq_product = ''GOLD'', rq_price = 101, rq_side = SELL, rq_volume = 10\<rparr>]"
    by (rule unknown_product_quotes)
qed

text \<open>
  C6, amended: a product for which the fair-value map has no entry is quoted exactly as
  if its fair value were 100, the default of \<^verbatim>\<open>self.theos.get(product, 100.0)\<close>.
\<close>

theorem missing_theo_quoted_at_default:
  assumes "tm p = None"
  shows "dict_get tm p 100 = 100
    \<and> quote_product cfg tm ts im rm rnd p = quote_product cfg (tm(p \<mapsto> 100)) ts im rm rnd p"
  using assms compute_levels_default_theo [where tm = tm and p = p and cfg = cfg and ts = ts
      and im = im and rm = rm and rnd = rnd]
  by (simp add: quote_product_def dict_get_def)

theorem missing_theo_quoted_at_default_witness:
  "theos 0 0 ''GOLD'' = None
   \<and> quote_product scenario_config (theos 0 0) Map.empty Map.empty Map.empty (\<lambda>lvl. 0) ''GOLD''
     = quote_product scenario_config ((theos 0 0)(''GOLD'' \<mapsto> 100)) Map.empty Map.empty Map.empty
         (\<lambda>lvl. 0) ''GOLD''"
proof -
  have h: "theos 0 0 ''GOLD'' = None"
    by (simp add: theos_def)
  show ?thesis
    using h missing_theo_quoted_at_default [where tm = "theos 0 0" and p = "''GOLD''"
        and cfg = scenario_config and ts = Map.empty and im = Map.empty and rm = Map.empty
        and rnd = "\<lambda>lvl. 0"]
    by simp
qed

subsection \<open>Determinism without jitter\<close>

lemma level_prices_no_jitter:
  "jitter cfg = 0 \<Longrightarrow> level_prices cfg h c t a l r = level_prices cfg h c t a l r'"
  by (simp add: level_prices_def)

lemma levels_loop_no_jitter:
  "jitter cfg = 0 \<Longrightarrow> levels_loop cfg h c t a rnd ls = levels_loop cfg h c t a rnd' ls"
proof (induction ls)
  case Nil
  show ?case by simp
next
  case (Cons l ls)
  have "level_prices cfg h c t a l (rnd l) = level_prices cfg h c t a l (rnd' l)"
    using Cons.prems by (rule level_prices_no_jitter)
  with Cons show ?case by (simp split: sum.splits)
qed

lemma compute_levels_inputs:
  assumes "jitter cfg = 0"
    and "dict_get tm p 100 = dict_get tm' p' 100"
    and "dict_get ts p 1 = dict_get ts' p' 1"
    and "dict_get im p 0 = dict_get im' p' 0"
    and "get_vol_est rm p 30 = get_vol_est rm' p' 30"
  shows "compute_levels cfg tm ts im rm rnd p = compute_levels cfg tm' ts' im' rm' rnd' p'"
proof -
  have h: "compute_half_spread_ticks cfg im rm p = compute_half_spread_ticks cfg im' rm' p'"
    using assms(4,5) by (simp add: compute_half_spread_ticks_def split: pyfloat.splits)
  have l: "levels_loop cfg hsp c t a rnd ls = levels_loop cfg hsp c t a rnd' ls" for hsp c t a ls
    using assms(1) by (rule levels_loop_no_jitter)
  show ?thesis
    unfolding compute_levels_def using assms(2,3,4) h
    by (simp add: l Let_def split: sum.splits pyfloat.splits)
qed

text \<open>With the default jitter of 0.2 ticks the random draw does change the prices.\<close>

lemma jitter_matters:
  "compute_levels default_config (theos 0 0) [''EQUATOR'' \<mapsto> 1] [''EQUATOR'' \<mapsto> 0]
     [''EQUATOR'' \<mapsto> []] (\<lambda>lvl. 0) ''EQUATOR''
   \<noteq> compute_levels default_config (theos 0 0) [''EQUATOR'' \<mapsto> 1] [''EQUATOR'' \<mapsto> 0]
     [''EQUATOR'' \<mapsto> []] (\<lambda>lvl. 99 / 100) ''EQUATOR''"
  by (simp add: compute_levels_def compute_half_spread_ticks_def
      get_vol_est_def py_slice_from_def dict_get_def default_config_def
      theos_def price_to_tick_def level_prices_def upto.simps py_round_def py_int_def)

text \<open>
  C7: for a quote engine whose jitter is zero, the prices of one level do not depend on
  the random draw, and the levels of a cycle (with their quantity) are the same in any
  two runs that read the same fair value, tick size, inventory and volatility, whatever
  the random draws, the product and the rest of the state.  The aggressiveness flag is
  itself computed from the inventory.
\<close>

theorem prices_deterministic_without_jitter:
  assumes "jitter cfg = 0"
    and "dict_get tm p 100 = dict_get tm' p' 100"
    and "dict_get ts p 1 = dict_get ts' p' 1"
    and "dict_get im p 0 = dict_get im' p' 0"
    and "get_vol_est rm p 30 = get_vol_est rm' p' 30"
  shows "level_prices cfg h c t a l r = level_prices cfg h c t a l r'
    \<and> compute_levels cfg tm ts im rm rnd p = compute_levels cfg tm' ts' im' rm' rnd' p'"
  using assms level_prices_no_jitter [of cfg h c t a l r r']
    compute_levels_inputs [of cfg tm p tm' p' ts ts' im im' rm rm' rnd rnd']
  by simp

theorem prices_deterministic_without_jitter_witness:
  "jitter scenario_config = 0
   \<and> level_prices scenario_config 1 100 1 False 1 0 = level_prices scenario_config 1 100 1 False 1 (99 / 100)
   \<and> compute_levels scenario_config (theos 0 0) [''EQUATOR'' \<mapsto> 1] [''EQUATOR'' \<mapsto> 0]
       [''EQUATOR'' \<mapsto> []] (\<lambda>lvl. 0) ''EQUATOR''
     = compute_levels scenario_config Map.empty Map.empty Map.empty Map.empty (\<lambda>lvl. 99 / 100) ''GOLD''"
proof -
  have j: "jitter scenario_config = 0"
    by (simp add: scenario_config_def default_config_def)
  have t: "dict_get (theos 0 0) ''EQUATOR'' 100 = dict_get Map.empty ''GOLD'' (100 :: real)"
    by (simp add: dict_get_def theos_def)
  have k: "dict_get [''EQUATOR'' \<mapsto> 1] ''EQUATOR'' 1 = dict_get Map.empty ''GOLD'' (1 :: real)"
    by (simp add: dict_get_def)
  have i: "dict_get [''EQUATOR'' \<mapsto> 0] ''EQUATOR'' 0 = dict_get Map.empty ''GOLD'' (0 :: int)"
    by (simp add: dict_get_def)
  have v: "get_vol_est [''EQUATOR'' \<mapsto> []] ''EQUATOR'' 30 = get_vol_est Map.empty ''GOLD'' 30"
    by (simp add: get_vol_est_def dict_get_def py_slice_from_def)
  show ?thesis
    using j prices_deterministic_without_jitter [OF j t k i v] by simp
qed

section \<open>Properties of the mid-price history\<close>

lemma push_mid_bounded: "length xs \<le> 200 \<Longrightarrow> length (push_mid xs m) \<le> 200"
  by (simp add: push_mid_def Let_def)

lemma push_mid_full: "length xs = 200 \<Longrightarrow> push_mid xs m = tl xs @ [m]"
  by (cases xs) (simp_all add: push_mid_def Let_def)

lemma push_mid_room: "length xs < 200 \<Longrightarrow> push_mid xs m = xs @ [m]"
  by (simp add: push_mid_def Let_def)

lemma insert_mid_bounded:
  "history_bounded rm \<Longrightarrow> insert_mid rm p m = Inr rm' \<Longrightarrow> history_bounded rm'"
  by (auto simp: history_bounded_def insert_mid_def push_mid_bounded split: option.splits if_splits)

lemma wrapper_bounded:
  "history_bounded rm \<Longrightarrow> on_orderbook_wrapper parse rm raw = Inr (ob, rm') \<Longrightarrow> history_bounded rm'"
  by (auto simp: on_orderbook_wrapper_def Let_def dest: insert_mid_bounded
      split: list.splits sum.splits)

lemma step_bounded:
  assumes "history_bounded (recent_mid s)"
  shows "history_bounded (recent_mid (step parse s x))"
proof (cases x)
  case (SendOrder p price sd v t r)
  with assms show ?thesis
    by (auto simp: send_order_def simulate_fill_def Let_def split: option.splits sum.splits if_splits)
next
  case (CancelOrder i)
  with assms show ?thesis
    by (simp add: cancel_order_def split: prod.splits)
next
  case CancelAll
  with assms show ?thesis
    by (simp add: cancel_all_orders_def)
next
  case (SimMid tm p g)
  with assms show ?thesis
    by (auto simp: simulate_market_update_def Let_def dest: insert_mid_bounded split: sum.splits)
next
  case (BookUpdate raw)
  with assms show ?thesis
    by (auto dest: wrapper_bounded split: sum.splits)
qed

lemma run_bounded:
  "history_bounded (recent_mid s) \<Longrightarrow> history_bounded (recent_mid (run parse s ops))"
  unfolding run_def by (induction ops arbitrary: s) (simp_all add: step_bounded)

lemma fold_setdefault_empty:
  "fold (\<lambda>p d. map_setdefault d p []) ps m q = Some xs \<Longrightarrow> m q = Some xs \<or> xs = []"
  by (induction ps arbitrary: m) (fastforce simp: map_setdefault_def split: option.splits if_splits)+

lemma init_bounded: "history_bounded (recent_mid (init_state ps))"
  using fold_setdefault_empty [of ps Map.empty]
  by (fastforce simp: history_bounded_def init_state_def)

lemma sim_update_pushes:
  assumes "recent_mid s p = Some xs"
  shows "simulate_market_update s tm p g =
    Inr (s\<lparr>recent_mid := (recent_mid s)(p \<mapsto> push_mid xs (Num (dict_get tm p 100 * (1 + g))))\<rparr>)"
  using assms by (simp add: simulate_market_update_def insert_mid_def Let_def)

lemma wrapper_pushes:
  assumes "ob_buy_orders (normalized_book parse raw) = b # bs"
    and "ob_sell_orders (normalized_book parse raw) = a # as"
    and "rm (ob_product (normalized_book parse raw)) = Some xs"
  shows "on_orderbook_wrapper parse rm raw =
    Inr (normalized_book parse raw,
         rm(ob_product (normalized_book parse raw) \<mapsto> push_mid xs (py_mid (lv_price b) (lv_price a))))"
  using assms by (simp add: on_orderbook_wrapper_def insert_mid_def Let_def)

lemma demo_book_normal:
  "normalized_book demo_parse demo_book =
     \<lparr>ob_product = ''EQUATOR'',
      ob_buy_orders = [\<lparr>lv_price = Num 100, lv_volume = 5, lv_own_volume = 0\<rparr>,
                       \<lparr>lv_price = Num 99, lv_volume = 5, lv_own_volume = 0\<rparr>],
      ob_sell_orders = [\<lparr>lv_price = Num 101, lv_volume = 5, lv_own_volume = 0\<rparr>,
                        \<lparr>lv_price = Num 102, lv_volume = 5, lv_own_volume = 0\<rparr>]\<rparr>"
  by (simp add: normalized_book_def py_sorted_def transform_def demo_book_def demo_level_def
      demo_parse_def Let_def)

lemma demo_book_normalized:
  "on_orderbook_wrapper demo_parse [''EQUATOR'' \<mapsto> [Num 100]] demo_book =
     Inr (\<lparr>ob_product = ''EQUATOR'',
           ob_buy_orders = [\<lparr>lv_price = Num 100, lv_volume = 5, lv_own_volume = 0\<rparr>,
                            \<lparr>lv_price = Num 99, lv_volume = 5, lv_own_volume = 0\<rparr>],
           ob_sell_orders = [\<lparr>lv_price = Num 101, lv_volume = 5, lv_own_volume = 0\<rparr>,
                             \<lparr>lv_price = Num 102, lv_volume = 5, lv_own_volume = 0\<rparr>]\<rparr>,
          [''EQUATOR'' \<mapsto> [Num 100, Num (201 / 2)]])"
  by (simp add: on_orderbook_wrapper_def demo_book_normal insert_mid_def push_mid_def Let_def)

lemma two_feeds_history:
  "recent_mid (run demo_parse (init_state [''EQUATOR''])
       [SimMid (theos 0 0) ''EQUATOR'' 0, BookUpdate demo_book]) ''EQUATOR''
   = Some [Num 100, Num (201 / 2)]"
  by (simp add: run_def init_state_def map_setdefault_def alist_setdefault_def
      simulate_market_update_def insert_mid_def push_mid_def dict_get_def theos_def Let_def
      demo_book_normalized)

text \<open>
  C5: starting from the state the constructor leaves, after any sequence of operations
  of the threads (mid prices from the synthetic generator and from the order-book
  handler, in any interleaving, and orders and cancels as well) every product's history
  holds at most 200 mid prices.  An insertion into a full history drops its first, that
  is its oldest, entry and keeps the others in order before the new one; an insertion
  into a history with room only appends.  Each feed does just that on a history of 200
  entries: the synthetic generator returns the state whose history for the product is
  the old one without its first entry and with the new mid price at the end, and so
  does the order-book handler, with the mean of the best bid and the best ask, for the
  product of the message.
\<close>

theorem mid_history_bounded:
  "history_bounded (recent_mid (run parse (init_state ps) ops))
   \<and> (length xs = 200 \<longrightarrow> push_mid xs m = tl xs @ [m])
   \<and> (length xs < 200 \<longrightarrow> push_mid xs m = xs @ [m])
   \<and> (recent_mid s p = Some xs \<and> length xs = 200 \<longrightarrow>
        simulate_market_update s tm p g =
          Inr (s\<lparr>recent_mid := (recent_mid s)(p \<mapsto> tl xs @ [Num (dict_get tm p 100 * (1 + g))])\<rparr>))
   \<and> (ob_buy_orders (normalized_book parse raw) = b # bs
        \<and> ob_sell_orders (normalized_book parse raw) = a # as
        \<and> rm (ob_product (normalized_book parse raw)) = Some xs \<and> length xs = 200 \<longrightarrow>
        on_orderbook_wrapper parse rm raw =
          Inr (normalized_book parse raw,
               rm(ob_product (normalized_book parse raw) \<mapsto>
                    tl xs @ [py_mid (lv_price b) (lv_price a)])))"
  using run_bounded [OF init_bounded, of parse ps ops] push_mid_full [of xs] push_mid_room [of xs m]
    sim_update_pushes [of s p xs tm g] wrapper_pushes [of parse raw b bs a as rm xs]
  by simp

text \<open>
  Both feeds in a row on an empty history, and each feed on a history of 200 entries.
\<close>

theorem mid_history_bounded_witness:
  "recent_mid (run demo_parse (init_state [''EQUATOR''])
       [SimMid (theos 0 0) ''EQUATOR'' 0, BookUpdate demo_book]) ''EQUATOR''
     = Some [Num 100, Num (201 / 2)]
   \<and> length [Num 100, Num (201 / 2)] \<le> 200
   \<and> push_mid (replicate 200 (Num 1)) (Num 2) = tl (replicate 200 (Num 1)) @ [Num 2]
   \<and> simulate_market_update (mid100_state\<lparr>recent_mid := [''EQUATOR'' \<mapsto> replicate 200 (Num 1)]\<rparr>)
        (theos 0 0) ''EQUATOR'' 0
      = Inr (mid100_state\<lparr>recent_mid := [''EQUATOR'' \<mapsto> tl (replicate 200 (Num 1)) @ [Num 100]]\<rparr>)
   \<and> on_orderbook_wrapper demo_parse [''EQUATOR'' \<mapsto> replicate 200 (Num 1)] demo_book
      = Inr (normalized_book demo_parse demo_book,
             [''EQUATOR'' \<mapsto> tl (replicate 200 (Num 1)) @ [Num (201 / 2)]])"
  using two_feeds_history
    mid_history_bounded [where parse = demo_parse and ps = "[''EQUATOR'']"
      and ops = "[SimMid (theos 0 0) ''EQUATOR'' 0, BookUpdate demo_book]"
      and xs = "replicate 200 (Num 1)" and m = "Num 2"
      and s = "mid100_state\<lparr>recent_mid := [''EQUATOR'' \<mapsto> replicate 200 (Num 1)]\<rparr>"
      and p = "''EQUATOR''" and tm = "theos 0 0" and g = 0
      and raw = demo_book and rm = "[''EQUATOR'' \<mapsto> replicate 200 (Num 1)]"
      and b = "\<lparr>lv_price = Num 100, lv_volume = 5, lv_own_volume = 0\<rparr>"
      and bs = "[\<lparr>lv_price = Num 99, lv_volume = 5, lv_own_volume = 0\<rparr>]"
      and a = "\<lparr>lv_price = Num 101, lv_volume = 5, lv_own_volume = 0\<rparr>"
      and as = "[\<lparr>lv_price = Num 102, lv_volume = 5, lv_own_volume = 0\<rparr>]"]
  by (simp add: demo_book_normal dict_get_def theos_def)

section \<open>Properties of the order-book normalizer\<close>





lemma py_sorted_one_run:
  "\<forall>i. Suc i < length xs \<longrightarrow> \<not> py_lt (k (xs ! Suc i)) (k (xs ! i)) \<Longrightarrow> py_sorted k xs = xs"
proof (induction xs)
  case Nil
  show ?case by (simp add: py_sorted_def)
next
  case (Cons x xs)
  have "py_sorted k xs = xs"
    using Cons.prems by (intro Cons.IH) auto
  then have "py_sorted k (x # xs) = py_insort_key k x xs"
    by (simp add: py_sorted_def)
  also have "\<dots> = x # xs"
    using Cons.prems by (cases xs) auto
  finally show ?case .
qed















section \<open>Properties of the simulated gateway\<close>

lemma get_sim_mid_orders [simp]:
  "get_sim_mid (s\<lparr>open_orders_local := d\<rparr>) p = get_sim_mid s p"
  by (simp add: get_sim_mid_def)

lemma send_order_fill_buy:
  assumes "map_of (open_orders_local s) p = Some lst" and "get_sim_mid s p = Some (Num mid)"
    and "mid \<le> price"
  shows "\<exists>s'. send_order s p price BUY vol t r = Inr (s', new_order p price BUY vol t r)
     \<and> map_of (open_orders_local s') p = Some (filter (\<lambda>o'. oid o' \<noteq> gen_oid t r) lst)
     \<and> inventory s' = (inventory s)(p \<mapsto> dict_get (inventory s) p 0 + vol)"
  using assms
  by (simp add: send_order_def simulate_fill_def Let_def update_conv' new_order_def)

lemma send_order_fill_sell:
  assumes "map_of (open_orders_local s) p = Some lst" and "get_sim_mid s p = Some (Num mid)"
    and "price \<le> mid"
  shows "\<exists>s'. send_order s p price SELL vol t r = Inr (s', new_order p price SELL vol t r)
     \<and> map_of (open_orders_local s') p = Some (filter (\<lambda>o'. oid o' \<noteq> gen_oid t r) lst)
     \<and> inventory s' = (inventory s)(p \<mapsto> dict_get (inventory s) p 0 - vol)"
  using assms
  by (simp add: send_order_def simulate_fill_def Let_def update_conv' new_order_def)

lemma send_order_rest:
  assumes "map_of (open_orders_local s) p = Some lst" and "get_sim_mid s p = Some (Num mid)"
    and "(sd = BUY \<and> price < mid) \<or> (sd = SELL \<and> mid < price)"
  shows "send_order s p price sd vol t r =
     Inr (s\<lparr>open_orders_local :=
             AList.update p (lst @ [new_order p price sd vol t r]) (open_orders_local s)\<rparr>,
          new_order p price sd vol t r)"
  using assms by (auto simp add: send_order_def Let_def)

lemma send_order_nan_mid:
  assumes "map_of (open_orders_local s) p = Some lst" and "get_sim_mid s p = Some NaN"
  shows "send_order s p price sd vol t r =
     Inr (s\<lparr>open_orders_local :=
             AList.update p (lst @ [new_order p price sd vol t r]) (open_orders_local s)\<rparr>,
          new_order p price sd vol t r)"
  using assms by (simp add: send_order_def Let_def)

lemma step_mid_update:
  "is_mid_update x \<Longrightarrow> inventory (step parse s x) = inventory s
     \<and> open_orders_local (step parse s x) = open_orders_local s"
  by (cases x) (auto simp: simulate_market_update_def Let_def split: sum.splits)

lemma step_not_send:
  "\<not> is_send x \<Longrightarrow> inventory (step parse s x) = inventory s"
  by (cases x) (auto simp: simulate_market_update_def cancel_order_def cancel_all_orders_def Let_def
      split: sum.splits prod.splits)

lemma run_mid_updates:
  "list_all is_mid_update ops \<Longrightarrow> inventory (run parse s ops) = inventory s
     \<and> open_orders_local (run parse s ops) = open_orders_local s"
  unfolding run_def by (induction ops arbitrary: s) (simp_all add: step_mid_update)

lemma run_not_send:
  "list_all (\<lambda>x. \<not> is_send x) ops \<Longrightarrow> inventory (run parse s ops) = inventory s"
  unfolding run_def by (induction ops arbitrary: s) (simp_all add: step_not_send)

lemma sim_update_appends:
  "simulate_market_update s tm p g = Inr s' \<Longrightarrow>
     \<exists>xs. recent_mid s p = Some xs
       \<and> s' = s\<lparr>recent_mid := (recent_mid s)(p \<mapsto> push_mid xs (Num (dict_get tm p 100 * (1 + g))))\<rparr>"
  by (auto simp: simulate_market_update_def insert_mid_def Let_def split: option.splits sum.splits)

lemmas trace_defs = run_def send_order_def simulate_fill_def get_sim_mid_def dict_get_def
  simulate_market_update_def insert_mid_def push_mid_def cancel_all_orders_def cancel_order_def
  mid100_state_def init_state_def alist_setdefault_def map_setdefault_def theos_def Let_def

lemma mid100_ledger: "map_of (open_orders_local mid100_state) ''EQUATOR'' = Some []"
  by (simp add: mid100_state_def init_state_def alist_setdefault_def)

lemma mid100_mid: "get_sim_mid mid100_state ''EQUATOR'' = Some (Num 100)"
  by (simp add: mid100_state_def get_sim_mid_def dict_get_def)

lemma mid100_inventory: "inventory mid100_state ''EQUATOR'' = Some 0"
  by (simp add: mid100_state_def init_state_def map_setdefault_def)

lemma rest_then_move:
  "get_sim_mid (run demo_parse mid100_state
      [SendOrder ''EQUATOR'' 95 BUY 10 1700000000000 7,
       SimMid (theos 0 0) ''EQUATOR'' (- 1 / 10)]) ''EQUATOR'' = Some (Num 90)
   \<and> map_of (open_orders_local (run demo_parse mid100_state
      [SendOrder ''EQUATOR'' 95 BUY 10 1700000000000 7,
       SimMid (theos 0 0) ''EQUATOR'' (- 1 / 10)])) ''EQUATOR''
     = Some [new_order ''EQUATOR'' 95 BUY 10 1700000000000 7]
   \<and> inventory (run demo_parse mid100_state
      [SendOrder ''EQUATOR'' 95 BUY 10 1700000000000 7,
       SimMid (theos 0 0) ''EQUATOR'' (- 1 / 10)]) ''EQUATOR'' = Some 0"
  by (simp add: trace_defs)

lemma rest_then_cancel:
  "get_sim_mid (run demo_parse mid100_state
      [SendOrder ''EQUATOR'' 95 BUY 10 1700000000000 7, CancelAll]) ''EQUATOR'' = Some (Num 100)
   \<and> map_of (open_orders_local (run demo_parse mid100_state
      [SendOrder ''EQUATOR'' 95 BUY 10 1700000000000 7, CancelAll])) ''EQUATOR'' = Some []"
  by (simp add: trace_defs)

text \<open>
  C2, as stated: a BUY below the mid rests, with no inventory change, until the mid moves
  to or below its price.  In the code the end of the rest has nothing to do with the
  mid.  A BUY at 95 sent at mid 100 is still in the ledger, with the inventory still 0,
  after the mid has moved to 90; and it is gone from the ledger, cancelled by the next
  cancel-all, while the mid is still 100.
\<close>

theorem simulated_rest_counterexample:
  "get_sim_mid (run demo_parse mid100_state
      [SendOrder ''EQUATOR'' 95 BUY 10 1700000000000 7,
       SimMid (theos 0 0) ''EQUATOR'' (- 1 / 10)]) ''EQUATOR'' = Some (Num 90)
   \<and> map_of (open_orders_local (run demo_parse mid100_state
      [SendOrder ''EQUATOR'' 95 BUY 10 1700000000000 7,
       SimMid (theos 0 0) ''EQUATOR'' (- 1 / 10)])) ''EQUATOR''
     = Some [new_order ''EQUATOR'' 95 BUY 10 1700000000000 7]
   \<and> inventory (run demo_parse mid100_state
      [SendOrder ''EQUATOR'' 95 BUY 10 1700000000000 7,
       SimMid (theos 0 0) ''EQUATOR'' (- 1 / 10)]) ''EQUATOR'' = Some 0
   \<and> get_sim_mid (run demo_parse mid100_state
      [SendOrder ''EQUATOR'' 95 BUY 10 1700000000000 7, CancelAll]) ''EQUATOR'' = Some (Num 100)
   \<and> map_of (open_orders_local (run demo_parse mid100_state
      [SendOrder ''EQUATOR'' 95 BUY 10 1700000000000 7, CancelAll])) ''EQUATOR'' = Some []"
  using rest_then_move rest_then_cancel by simp

text \<open>
  C2, amended: in simulation mode, for an order sent for a product of the ledger with a
  known simulated mid price (a number): a BUY at or above the mid, and a SELL at or below it, is
  returned and filled at once; the product's ledger is then the old one without any
  order of the new id, and the product's inventory is up by the volume for the BUY, down
  by it for the SELL.  A BUY below the mid, and a SELL above it, is returned and appended
  to the product's ledger with the inventory unchanged, and through any later mid-price
  updates, whatever their values, the ledger and the inventory stay as they are.
\<close>

theorem simulated_fill_or_rest:
  assumes "map_of (open_orders_local s) p = Some lst" and "get_sim_mid s p = Some (Num mid)"
  shows "(mid \<le> price \<longrightarrow>
       (\<exists>s'. send_order s p price BUY vol t r = Inr (s', new_order p price BUY vol t r)
          \<and> map_of (open_orders_local s') p = Some (filter (\<lambda>o'. oid o' \<noteq> gen_oid t r) lst)
          \<and> inventory s' = (inventory s)(p \<mapsto> dict_get (inventory s) p 0 + vol)))
    \<and> (price \<le> mid \<longrightarrow>
       (\<exists>s'. send_order s p price SELL vol t r = Inr (s', new_order p price SELL vol t r)
          \<and> map_of (open_orders_local s') p = Some (filter (\<lambda>o'. oid o' \<noteq> gen_oid t r) lst)
          \<and> inventory s' = (inventory s)(p \<mapsto> dict_get (inventory s) p 0 - vol)))
    \<and> ((sd = BUY \<and> price < mid) \<or> (sd = SELL \<and> mid < price) \<longrightarrow>
       (\<exists>s'. send_order s p price sd vol t r = Inr (s', new_order p price sd vol t r)
          \<and> map_of (open_orders_local s') p = Some (lst @ [new_order p price sd vol t r])
          \<and> inventory s' = inventory s
          \<and> (\<forall>ops. list_all is_mid_update ops \<longrightarrow>
                inventory (run parse s' ops) = inventory s
                \<and> open_orders_local (run parse s' ops) = open_orders_local s')))"
proof (intro conjI impI)
  assume "mid \<le> price"
  with assms show "\<exists>s'. send_order s p price BUY vol t r = Inr (s', new_order p price BUY vol t r)
          \<and> map_of (open_orders_local s') p = Some (filter (\<lambda>o'. oid o' \<noteq> gen_oid t r) lst)
          \<and> inventory s' = (inventory s)(p \<mapsto> dict_get (inventory s) p 0 + vol)"
    by (rule send_order_fill_buy)
next
  assume "price \<le> mid"
  with assms show "\<exists>s'. send_order s p price SELL vol t r = Inr (s', new_order p price SELL vol t r)
          \<and> map_of (open_orders_local s') p = Some (filter (\<lambda>o'. oid o' \<noteq> gen_oid t r) lst)
          \<and> inventory s' = (inventory s)(p \<mapsto> dict_get (inventory s) p 0 - vol)"
    by (rule send_order_fill_sell)
next
  assume rest: "(sd = BUY \<and> price < mid) \<or> (sd = SELL \<and> mid < price)"
  let ?o = "new_order p price sd vol t r"
  let ?s = "s\<lparr>open_orders_local := AList.update p (lst @ [?o]) (open_orders_local s)\<rparr>"
  have sent: "send_order s p price sd vol t r = Inr (?s, ?o)"
    using assms rest by (rule send_order_rest)
  have ledger: "map_of (open_orders_local ?s) p = Some (lst @ [?o])"
    by (simp add: update_conv')
  have later: "\<forall>ops. list_all is_mid_update ops \<longrightarrow>
      inventory (run parse ?s ops) = inventory s
      \<and> open_orders_local (run parse ?s ops) = open_orders_local ?s"
    using run_mid_updates [of _ parse ?s] by simp
  show "\<exists>s'. send_order s p price sd vol t r = Inr (s', ?o)
          \<and> map_of (open_orders_local s') p = Some (lst @ [?o])
          \<and> inventory s' = inventory s
          \<and> (\<forall>ops. list_all is_mid_update ops \<longrightarrow>
                inventory (run parse s' ops) = inventory s
                \<and> open_orders_local (run parse s' ops) = open_orders_local s')"
    using sent ledger later by (intro exI [of _ ?s]) simp
qed

text \<open>
  At mid 100 with an empty ledger and no inventory: a BUY of 10 at 105 fills, leaving the
  ledger empty and the inventory at 10; a BUY of 10 at 95 rests.
\<close>

theorem simulated_fill_or_rest_witness:
  "map_of (open_orders_local mid100_state) ''EQUATOR'' = Some []
   \<and> get_sim_mid mid100_state ''EQUATOR'' = Some (Num 100)
   \<and> (\<exists>s'. send_order mid100_state ''EQUATOR'' 105 BUY 10 1700000000000 7
             = Inr (s', new_order ''EQUATOR'' 105 BUY 10 1700000000000 7)
          \<and> map_of (open_orders_local s') ''EQUATOR'' = Some []
          \<and> inventory s' ''EQUATOR'' = Some 10)
   \<and> (\<exists>s'. send_order mid100_state ''EQUATOR'' 95 BUY 10 1700000000000 7
             = Inr (s', new_order ''EQUATOR'' 95 BUY 10 1700000000000 7)
          \<and> map_of (open_orders_local s') ''EQUATOR''
             = Some [new_order ''EQUATOR'' 95 BUY 10 1700000000000 7]
          \<and> inventory s' ''EQUATOR'' = Some 0)"
proof -
  note inst = simulated_fill_or_rest [OF mid100_ledger mid100_mid, where vol = 10
      and t = 1700000000000 and r = 7 and sd = BUY and parse = demo_parse]
  obtain s1 where s1: "send_order mid100_state ''EQUATOR'' 105 BUY 10 1700000000000 7
        = Inr (s1, new_order ''EQUATOR'' 105 BUY 10 1700000000000 7)"
      "map_of (open_orders_local s1) ''EQUATOR'' = Some []"
      "inventory s1 = (inventory mid100_state)(''EQUATOR'' \<mapsto> dict_get (inventory mid100_state) ''EQUATOR'' 0 + 10)"
    using inst [where price = 105] by auto
  have f: "\<exists>s'. send_order mid100_state ''EQUATOR'' 105 BUY 10 1700000000000 7
             = Inr (s', new_order ''EQUATOR'' 105 BUY 10 1700000000000 7)
          \<and> map_of (open_orders_local s') ''EQUATOR'' = Some []
          \<and> inventory s' ''EQUATOR'' = Some 10"
    using s1 mid100_inventory by (intro exI [of _ s1]) (simp add: dict_get_def)
  obtain s2 where s2: "send_order mid100_state ''EQUATOR'' 95 BUY 10 1700000000000 7
        = Inr (s2, new_order ''EQUATOR'' 95 BUY 10 1700000000000 7)"
      "map_of (open_orders_local s2) ''EQUATOR'' = Some [new_order ''EQUATOR'' 95 BUY 10 1700000000000 7]"
      "inventory s2 = inventory mid100_state"
    using inst [where price = 95] by auto
  have g: "\<exists>s'. send_order mid100_state ''EQUATOR'' 95 BUY 10 1700000000000 7
             = Inr (s', new_order ''EQUATOR'' 95 BUY 10 1700000000000 7)
          \<and> map_of (open_orders_local s') ''EQUATOR''
             = Some [new_order ''EQUATOR'' 95 BUY 10 1700000000000 7]
          \<and> inventory s' ''EQUATOR'' = Some 0"
    using s2 mid100_inventory by (intro exI [of _ s2]) simp
  show ?thesis
    using mid100_ledger mid100_mid f g by simp
qed

text \<open>
  C10: in simulation mode nothing but \<^verbatim>\<open>send_order\<close> changes the inventory: an
  operation that is not a send (a synthetic or order-book mid price, a cancel by id, a
  cancel-all) leaves it as it is, and so does any sequence of such operations.  A
  mid-price update, from either feed, leaves the ledger as it is as well, so a resting
  order stays in the ledger, unfilled, through any sequence of mid-price updates; the
  synthetic update only pushes the new mid price onto the product's history.
\<close>

theorem resting_orders_never_fill:
  "(\<not> is_send x \<longrightarrow> inventory (step parse s x) = inventory s)
   \<and> (is_mid_update x \<longrightarrow> open_orders_local (step parse s x) = open_orders_local s)
   \<and> (list_all (\<lambda>x. \<not> is_send x) ops \<longrightarrow> inventory (run parse s ops) = inventory s)
   \<and> (list_all is_mid_update ops \<longrightarrow>
        inventory (run parse s ops) = inventory s
        \<and> open_orders_local (run parse s ops) = open_orders_local s)
   \<and> (simulate_market_update s tm p g = Inr s' \<longrightarrow>
        (\<exists>xs. recent_mid s p = Some xs
           \<and> s' = s\<lparr>recent_mid := (recent_mid s)(p \<mapsto> push_mid xs (Num (dict_get tm p 100 * (1 + g))))\<rparr>))"
  using step_not_send [of x parse s] step_mid_update [of x parse s]
    run_not_send [of ops parse s] run_mid_updates [of ops parse s]
    sim_update_appends [of s tm p g s']
  by blast

text \<open>
  A BUY at 95 rests at mid 100; the mid then moves to 90 and an order book with mid
  100.5 arrives: the order is still the ledger's only one and the inventory is still 0.
\<close>

lemma rest_then_two_updates:
  "map_of (open_orders_local (run demo_parse
       (run demo_parse mid100_state [SendOrder ''EQUATOR'' 95 BUY 10 1700000000000 7])
       [SimMid (theos 0 0) ''EQUATOR'' (- 1 / 10), BookUpdate demo_book])) ''EQUATOR''
     = Some [new_order ''EQUATOR'' 95 BUY 10 1700000000000 7]
   \<and> inventory (run demo_parse
       (run demo_parse mid100_state [SendOrder ''EQUATOR'' 95 BUY 10 1700000000000 7])
       [SimMid (theos 0 0) ''EQUATOR'' (- 1 / 10), BookUpdate demo_book]) ''EQUATOR'' = Some 0
   \<and> get_sim_mid (run demo_parse
       (run demo_parse mid100_state [SendOrder ''EQUATOR'' 95 BUY 10 1700000000000 7])
       [SimMid (theos 0 0) ''EQUATOR'' (- 1 / 10), BookUpdate demo_book]) ''EQUATOR'' = Some (Num (201 / 2))"
  by (simp add: trace_defs on_orderbook_wrapper_def demo_book_normal)

theorem resting_orders_never_fill_witness:
  "list_all is_mid_update [SimMid (theos 0 0) ''EQUATOR'' (- 1 / 10), BookUpdate demo_book]
   \<and> inventory (run demo_parse
       (run demo_parse mid100_state [SendOrder ''EQUATOR'' 95 BUY 10 1700000000000 7])
       [SimMid (theos 0 0) ''EQUATOR'' (- 1 / 10), BookUpdate demo_book])
     = inventory (run demo_parse mid100_state [SendOrder ''EQUATOR'' 95 BUY 10 1700000000000 7])
   \<and> open_orders_local (run demo_parse
       (run demo_parse mid100_state [SendOrder ''EQUATOR'' 95 BUY 10 1700000000000 7])
       [SimMid (theos 0 0) ''EQUATOR'' (- 1 / 10), BookUpdate demo_book])
     = open_orders_local (run demo_parse mid100_state [SendOrder ''EQUATOR'' 95 BUY 10 1700000000000 7])
   \<and> map_of (open_orders_local (run demo_parse
       (run demo_parse mid100_state [SendOrder ''EQUATOR'' 95 BUY 10 1700000000000 7])
       [SimMid (theos 0 0) ''EQUATOR'' (- 1 / 10), BookUpdate demo_book])) ''EQUATOR''
     = Some [new_order ''EQUATOR'' 95 BUY 10 1700000000000 7]
   \<and> get_sim_mid (run demo_parse
       (run demo_parse mid100_state [SendOrder ''EQUATOR'' 95 BUY 10 1700000000000 7])
       [SimMid (theos 0 0) ''EQUATOR'' (- 1 / 10), BookUpdate demo_book]) ''EQUATOR'' = Some (Num (201 / 2))"
proof -
  have m: "list_all is_mid_update [SimMid (theos 0 0) ''EQUATOR'' (- 1 / 10), BookUpdate demo_book]"
    by simp
  show ?thesis
    using m rest_then_two_updates
      resting_orders_never_fill [where parse = demo_parse
        and s = "run demo_parse mid100_state [SendOrder ''EQUATOR'' 95 BUY 10 1700000000000 7]"
        and ops = "[SimMid (theos 0 0) ''EQUATOR'' (- 1 / 10), BookUpdate demo_book]"]
    by simp
qed

text \<open>
  C9 at its failing input: the quote engine sends the BUY and the SELL of a level one
  after the other; when both calls read the same millisecond and draw the same number
  the two orders, which differ, carry the same identifier, and the ledger holds both
  under it.  A cancel of that identifier then removes the two of them.
\<close>

theorem order_id_collision:
  "map_of (open_orders_local (run demo_parse mid100_state
      [SendOrder ''EQUATOR'' 99 BUY 10 1700000000000 7,
       SendOrder ''EQUATOR'' 101 SELL 10 1700000000000 7])) ''EQUATOR''
   = Some [new_order ''EQUATOR'' 99 BUY 10 1700000000000 7,
           new_order ''EQUATOR'' 101 SELL 10 1700000000000 7]
   \<and> new_order ''EQUATOR'' 99 BUY 10 1700000000000 7
       \<noteq> new_order ''EQUATOR'' 101 SELL 10 1700000000000 7
   \<and> oid (new_order ''EQUATOR'' 99 BUY 10 1700000000000 7) = ''sim-1700000000000-7''
   \<and> oid (new_order ''EQUATOR'' 101 SELL 10 1700000000000 7) = ''sim-1700000000000-7''
   \<and> map_of (open_orders_local (run demo_parse mid100_state
      [SendOrder ''EQUATOR'' 99 BUY 10 1700000000000 7,
       SendOrder ''EQUATOR'' 101 SELL 10 1700000000000 7,
       CancelOrder ''sim-1700000000000-7''])) ''EQUATOR'' = Some []"
  by (simp add: trace_defs new_order_def gen_oid_def str_int_def str_nat.simps digit_char_def)

section \<open>Properties of the volatility estimate\<close>



















end
